theory Spec2Isabelle
  imports Main
begin

section \<open>The workspace of caffe2/core/workspace.cc\<close>

text \<open>
  The theory embeds \<^verbatim>\<open>Workspace\<close> and the step executor of
  \<^verbatim>\<open>caffe2/core/workspace.cc\<close>. Networks, blobs and the network builder are
  collaborators whose code lives in other files; the embedding keeps of them what
  \<^verbatim>\<open>workspace.cc\<close> uses.
\<close>

subsection \<open>Blobs\<close>

text \<open>
  A tensor is known to the continuation test by its element count, by whether its
  elements are \<^verbatim>\<open>bool\<close>, and by its first element.
\<close>

datatype tensor = BoolTensor "bool list" | OtherTensor nat

fun tensor_size :: "tensor \<Rightarrow> nat" where
  "tensor_size (BoolTensor bs) = length bs"
| "tensor_size (OtherTensor n) = n"

fun IsType_bool :: "tensor \<Rightarrow> bool" where
  "IsType_bool (BoolTensor bs) = True"
| "IsType_bool (OtherTensor n) = False"

fun data_bool :: "tensor \<Rightarrow> bool list" where
  "data_bool (BoolTensor bs) = bs"
| "data_bool (OtherTensor n) = []"

text \<open>A blob is a type-erased box: it holds a CPU tensor or something else.\<close>

datatype blob = TensorCPU tensor | OtherBlob

text \<open>
  The blob side of a workspace: \<^verbatim>\<open>blob_map_\<close> and the optional parent
  \<^verbatim>\<open>shared_\<close>, which is a workspace again. The members lose their trailing
  underscore here.
\<close>

datatype blobstore =
  BlobStore (blob_map: "string \<Rightarrow> blob option") (shared: "blobstore option")

text \<open>
  Modelled from the spec: \<^verbatim>\<open>HasBlob\<close> is defined in workspace.h, which is not
  among the sources. The spec describes the existence check as parent-aware: local
  entries first, then the parent.
\<close>

fun HasBlob :: "blobstore \<Rightarrow> string \<Rightarrow> bool" where
  "HasBlob (BlobStore m sh) n =
     (m n \<noteq> None \<or> (case sh of None \<Rightarrow> False | Some p \<Rightarrow> HasBlob p n))"

text \<open>\<^verbatim>\<open>Workspace::GetBlob\<close>: \<open>None\<close> is the null pointer.\<close>

fun GetBlob :: "blobstore \<Rightarrow> string \<Rightarrow> blob option" where
  "GetBlob (BlobStore m sh) n =
     (if m n \<noteq> None then m n
      else (case sh of
              None \<Rightarrow> None
            | Some p \<Rightarrow> if HasBlob p n then GetBlob p n else None))"

subsection \<open>Networks and the registry\<close>

text \<open>
  The history is a ghost of the model: what happened so far, in order. A step was entered
  (the source logs \<^verbatim>\<open>Running execution step\<close> there), a network instance ran and
  returned a flag, or the criteria closure read its output blob and returned that value.
\<close>

datatype event = StepStart string | NetRun string bool | CriteriaOutput bool

fun failed_run :: "event \<Rightarrow> bool" where
  "failed_run (NetRun nm ok) = (\<not> ok)"
| "failed_run (StepStart nm) = False"
| "failed_run (CriteriaOutput b) = False"

fun criteria_outputs :: "event list \<Rightarrow> bool list" where
  "criteria_outputs [] = []"
| "criteria_outputs (CriteriaOutput b # es) = b # criteria_outputs es"
| "criteria_outputs (StepStart nm # es) = criteria_outputs es"
| "criteria_outputs (NetRun nm ok # es) = criteria_outputs es"

text \<open>
  A network instance (\<^verbatim>\<open>NetBase\<close>). Its \<^verbatim>\<open>Run\<close> reads and writes blobs and
  returns a flag; state a network keeps between runs is taken to live in blobs.
\<close>

record net =
  nname :: string
  external_output :: "string list"
  Verify :: bool
  Run :: "blobstore \<Rightarrow> bool \<times> blobstore"

text \<open>
  \<^verbatim>\<open>net_map_\<close> maps a name to an owning pointer, which may be null:
  \<open>None\<close> is a name without entry, \<open>Some None\<close> an entry holding the null pointer.
\<close>

record Workspace =
  blobs :: blobstore
  net_map :: "string \<Rightarrow> net option option"
  history :: "event list"

text \<open>
  Why a call does not return: a failed \<^verbatim>\<open>CHECK\<close> aborts the process, a failed
  \<^verbatim>\<open>CAFFE_ENFORCE\<close> throws, a null pointer is dereferenced.
\<close>

datatype fatal =
    Check_num_iter_with_criteria
  | Check_criteria_notnull
  | Check_external_output_size
  | Check_blob_size
  | Check_blob_type
  | Check_blob_holds_tensor
  | Check_net_has_name
  | Enforce_report_interval
  | NullDeref

text \<open>Threads the source spawns; what they do afterwards is outside this model.\<close>

datatype thread = ReporterThread "net option" int | SubstepWorkers nat

text \<open>
  The end of a call: it returns a value, it does not return for one of the reasons above,
  or it has spawned threads that run beside it. Each carries the workspace reached at
  that point.
\<close>

datatype 'a outcome =
    Ret 'a Workspace
  | Fatal fatal Workspace
  | Threads thread Workspace

fun ws_of :: "'a outcome \<Rightarrow> Workspace" where
  "ws_of (Ret x ws) = ws"
| "ws_of (Fatal f ws) = ws"
| "ws_of (Threads t ws) = ws"

text \<open>\<^verbatim>\<open>net->Run()\<close> on an instance.\<close>

definition Run_net :: "net \<Rightarrow> Workspace \<Rightarrow> bool \<times> Workspace" where
  "Run_net n ws =
     (let (ok, b) = Run n (blobs ws)
      in (ok, ws\<lparr>blobs := b, history := history ws @ [NetRun (nname n) ok]\<rparr>))"

text \<open>\<^verbatim>\<open>p->Run()\<close> on a pointer: a null pointer ends the process.\<close>

definition Run_ptr :: "net option \<Rightarrow> Workspace \<Rightarrow> bool outcome" where
  "Run_ptr p ws =
     (case p of
        None \<Rightarrow> Fatal NullDeref ws
      | Some n \<Rightarrow> (let (ok, ws') = Run_net n ws in Ret ok ws'))"

text \<open>\<^verbatim>\<open>net_map_[name].get()\<close>: \<^verbatim>\<open>operator[]\<close> inserts a null entry for a missing name.\<close>

definition net_map_at :: "Workspace \<Rightarrow> string \<Rightarrow> net option \<times> Workspace" where
  "net_map_at ws n =
     (case net_map ws n of
        None \<Rightarrow> (None, ws\<lparr>net_map := (net_map ws)(n \<mapsto> None)\<rparr>)
      | Some p \<Rightarrow> (p, ws))"

definition GetNet :: "Workspace \<Rightarrow> string \<Rightarrow> net option" where
  "GetNet ws n = (case net_map ws n of None \<Rightarrow> None | Some p \<Rightarrow> p)"

definition DeleteNet :: "Workspace \<Rightarrow> string \<Rightarrow> Workspace" where
  "DeleteNet ws n =
     (if net_map ws n \<noteq> None then ws\<lparr>net_map := (net_map ws)(n := None)\<rparr> else ws)"

definition RunNet :: "Workspace \<Rightarrow> string \<Rightarrow> bool outcome" where
  "RunNet ws n =
     (case net_map ws n of
        None \<Rightarrow> Ret False ws
      | Some p \<Rightarrow> Run_ptr p ws)"

text \<open>
  A network definition, as far as the workspace reads it: the optional name; the rest of
  the message (type, operators, arguments) is a number only the builder reads. The builder
  \<^verbatim>\<open>caffe2::CreateNet(net_def, ws)\<close> is defined in net.cc, which is not among the
  sources; it is a parameter \<open>build\<close> here, returning the instance or the null pointer
  and the blobs it created.
\<close>

record NetDef =
  def_name :: "string option"
  def_rest :: nat

type_synonym builder = "NetDef \<Rightarrow> blobstore \<Rightarrow> net option \<times> blobstore"

definition CreateNet :: "builder \<Rightarrow> Workspace \<Rightarrow> NetDef \<Rightarrow> net option outcome" where
  "CreateNet build ws0 net_def =
     (case def_name net_def of
        None \<Rightarrow> Fatal Check_net_has_name ws0
      | Some nm \<Rightarrow>
          (let ws1 = (if net_map ws0 nm \<noteq> None
                      then ws0\<lparr>net_map := (net_map ws0)(nm := None)\<rparr> else ws0);
               (p, b) = build net_def (blobs ws1);
               ws2 = ws1\<lparr>blobs := b, net_map := (net_map ws1)(nm \<mapsto> p)\<rparr>
           in case p of
                None \<Rightarrow> Ret None (ws2\<lparr>net_map := (net_map ws2)(nm := None)\<rparr>)
              | Some n \<Rightarrow>
                  if \<not> Verify n
                  then Ret None (ws2\<lparr>net_map := (net_map ws2)(nm := None)\<rparr>)
                  else Ret (Some n) ws2))"

text \<open>\<^verbatim>\<open>Workspace::RunNetOnce\<close>: the built pointer is dereferenced unchecked.\<close>

definition RunNetOnce :: "builder \<Rightarrow> Workspace \<Rightarrow> NetDef \<Rightarrow> bool outcome" where
  "RunNetOnce build ws0 net_def =
     (let (p, b) = build net_def (blobs ws0);
          ws1 = ws0\<lparr>blobs := b\<rparr>
      in case p of
           None \<Rightarrow> Fatal NullDeref ws1
         | Some n \<Rightarrow>
             if \<not> Verify n then Ret False ws1
             else (let (ok, ws2) = Run_net n ws1
                   in if \<not> ok then Ret False ws2 else Ret True ws2))"

subsection \<open>Execution steps\<close>

datatype ExecutionStep =
  ExecutionStep
    (step_name: string)
    (substep: "ExecutionStep list")
    (network: "string list")
    (num_iter: "int option")
    (criteria_network: "string option")
    (report_net: "string option")
    (report_interval: "int option")
    (concurrent_substeps: bool)

text \<open>
  The test a step iterates under: given the iteration index and the workspace it returns
  a flag, and it may run a network or stop the process on the way.
\<close>

type_synonym test = "int \<Rightarrow> Workspace \<Rightarrow> bool outcome"

text \<open>
  The closure of lines 36 to 42: run the criteria network, whose flag is dropped, then read
  its output. \<^verbatim>\<open>Get<TensorCPU>()\<close> is defined in blob.h, which is not among the
  sources; a blob that holds no CPU tensor is taken to fail its type check there. On a
  \<^verbatim>\<open>bool\<close> the comparison \<^verbatim>\<open>> 0\<close> is the value itself.
\<close>

definition criteria_test :: "net \<Rightarrow> string \<Rightarrow> test" where
  "criteria_test criteria_net criteria_output = (\<lambda>i ws.
     (let ws1 = snd (Run_net criteria_net ws)
      in case GetBlob (blobs ws1) criteria_output of
           None \<Rightarrow> Fatal NullDeref ws1
         | Some OtherBlob \<Rightarrow> Fatal Check_blob_holds_tensor ws1
         | Some (TensorCPU t) \<Rightarrow>
             if tensor_size t \<noteq> 1 then Fatal Check_blob_size ws1
             else if \<not> IsType_bool t then Fatal Check_blob_type ws1
             else (let b = hd (data_bool t)
                   in Ret b (ws1\<lparr>history := history ws1 @ [CriteriaOutput b]\<rparr>))))"

text \<open>
  Line 26: the iteration count of a step without criteria network. The field
  \<^verbatim>\<open>num_iter\<close> is a 64-bit integer of the protocol message (its declaration is not among
  the sources), and line 26 stores it in an \<^verbatim>\<open>int\<close>: the conversion keeps a value
  between \<open>-2^31\<close> and \<open>2^31 - 1\<close> and wraps any other around modulo \<open>2^32\<close>.
\<close>

definition narrow_int :: "int \<Rightarrow> int" where
  "narrow_int n = (n + 2147483648) mod 4294967296 - 2147483648"

definition iterations :: "ExecutionStep \<Rightarrow> int" where
  "iterations step = narrow_int (case num_iter step of Some n \<Rightarrow> n | None \<Rightarrow> 1)"

definition getContinuationTest :: "Workspace \<Rightarrow> ExecutionStep \<Rightarrow> fatal + test" where
  "getContinuationTest ws step =
     (if criteria_network step \<noteq> None \<and> num_iter step \<noteq> None
      then Inl Check_num_iter_with_criteria
      else case criteria_network step of
             None \<Rightarrow> Inr (\<lambda>i ws. Ret (i < iterations step) ws)
           | Some cn \<Rightarrow>
               (case GetNet ws cn of
                  None \<Rightarrow> Inl Check_criteria_notnull
                | Some criteria \<Rightarrow>
                    if length (external_output criteria) \<noteq> 1
                    then Inl Check_external_output_size
                    else Inr (criteria_test criteria (hd (external_output criteria)))))"

text \<open>
  The closure \<^verbatim>\<open>shouldContinue\<close> of lines 254 to 256: \<^verbatim>\<open>&&\<close> evaluates the
  external predicate first and the step's own test only when that holds.
\<close>

definition shouldContinue :: "(int \<Rightarrow> bool) \<Rightarrow> test \<Rightarrow> test" where
  "shouldContinue externalShouldContinue netShouldContinue = (\<lambda>iter ws.
     if externalShouldContinue iter then netShouldContinue iter ws else Ret False ws)"

text \<open>Lines 300 to 307: resolve the names; \<open>None\<close> is the early \<^verbatim>\<open>return false\<close>.\<close>

fun collect_networks :: "Workspace \<Rightarrow> string list \<Rightarrow> net option list option" where
  "collect_networks ws [] = Some []"
| "collect_networks ws (network_name # rest) =
     (case net_map ws network_name of
        None \<Rightarrow> None
      | Some p \<Rightarrow> (case collect_networks ws rest of
                     None \<Rightarrow> None
                   | Some ps \<Rightarrow> Some (p # ps)))"

text \<open>Lines 310 to 314: one pass over the resolved networks, stopping at the first failure.\<close>

fun run_networks :: "net option list \<Rightarrow> Workspace \<Rightarrow> bool outcome" where
  "run_networks [] ws = Ret True ws"
| "run_networks (p # ps) ws =
     (case Run_ptr p ws of
        Ret ok ws' \<Rightarrow> if \<not> ok then Ret False ws' else run_networks ps ws'
      | Fatal f ws' \<Rightarrow> Fatal f ws'
      | Threads t ws' \<Rightarrow> Threads t ws')"

text \<open>
  The loop of lines 308 to 317. A criteria network may hold the loop forever, so the loop
  takes fuel, one unit for each evaluation of the test; \<open>None\<close> is fuel used up. The
  index is an unbounded integer: under a fixed count it stays below the count, and under a
  criteria network the source's \<^verbatim>\<open>int\<close> would overflow only after \<open>2^31\<close> iterations.
\<close>

fun network_loop :: "nat \<Rightarrow> net option list \<Rightarrow> test \<Rightarrow> int \<Rightarrow> Workspace \<Rightarrow> bool outcome option" where
  "network_loop 0 networks sc iter ws = None"
| "network_loop (Suc fuel) networks sc iter ws =
     (case sc iter ws of
        Ret go ws1 \<Rightarrow>
          if \<not> go then Some (Ret True ws1)
          else (case run_networks networks ws1 of
                  Ret ok ws2 \<Rightarrow>
                    if \<not> ok then Some (Ret False ws2)
                    else network_loop fuel networks sc (iter + 1) ws2
                | Fatal f ws2 \<Rightarrow> Some (Fatal f ws2)
                | Threads t ws2 \<Rightarrow> Some (Threads t ws2))
      | Fatal f ws1 \<Rightarrow> Some (Fatal f ws1)
      | Threads t ws1 \<Rightarrow> Some (Threads t ws1))"

text \<open>
  \<^verbatim>\<open>Workspace::ExecuteStepRecursive\<close>, with the loop over iterations of a composite
  step (\<open>substep_loop\<close>, lines 258 to 295) and the sequential \<^verbatim>\<open>worker\<close> (lines 268
  to 279) as functions of their own. Fuel bounds the nesting of calls and iterations.

  The worker walks the substeps in index order and stops claiming once
  \<^verbatim>\<open>got_failure\<close> is set; its result is the final \<^verbatim>\<open>got_failure\<close>. While a substep
  runs in the sequential mode nothing else writes \<^verbatim>\<open>got_failure\<close>, so the predicate
  handed down reads the value the worker saw when it claimed the substep.

  A step with a report net starts a reporter thread, and a concurrent step with more than
  one substep starts worker threads: the model stops there with \<open>Threads\<close>.
\<close>

fun ExecuteStepRecursive ::
      "nat \<Rightarrow> ExecutionStep \<Rightarrow> (int \<Rightarrow> bool) \<Rightarrow> Workspace \<Rightarrow> bool outcome option"
  and substep_loop ::
      "nat \<Rightarrow> ExecutionStep \<Rightarrow> (int \<Rightarrow> bool) \<Rightarrow> test \<Rightarrow> int \<Rightarrow> Workspace \<Rightarrow> bool outcome option"
  and worker ::
      "nat \<Rightarrow> ExecutionStep list \<Rightarrow> bool \<Rightarrow> (int \<Rightarrow> bool) \<Rightarrow> Workspace \<Rightarrow> bool outcome option"
where
  "ExecuteStepRecursive 0 step externalShouldContinue ws0 = None"
| "ExecuteStepRecursive (Suc fuel) step externalShouldContinue ws0 =
     (let ws = ws0\<lparr>history := history ws0 @ [StepStart (step_name step)]\<rparr>
      in if \<not> (substep step = [] \<or> network step = []) then Some (Ret False ws)
         else case report_net step of
           Some rn \<Rightarrow>
             (case report_interval step of
                None \<Rightarrow> Some (Fatal Enforce_report_interval ws)
              | Some interval \<Rightarrow>
                  (let (p, ws') = net_map_at ws rn
                   in Some (Threads (ReporterThread p interval) ws')))
         | None \<Rightarrow>
             (case getContinuationTest ws step of
                Inl f \<Rightarrow> Some (Fatal f ws)
              | Inr netShouldContinue \<Rightarrow>
                  if substep step \<noteq> []
                  then substep_loop fuel step externalShouldContinue
                         (shouldContinue externalShouldContinue netShouldContinue) 0 ws
                  else (case collect_networks ws (network step) of
                          None \<Rightarrow> Some (Ret False ws)
                        | Some networks \<Rightarrow>
                            network_loop fuel networks
                              (shouldContinue externalShouldContinue netShouldContinue) 0 ws)))"
| "substep_loop 0 step externalShouldContinue sc iter ws = None"
| "substep_loop (Suc fuel) step externalShouldContinue sc iter ws =
     (case sc iter ws of
        Ret go ws1 \<Rightarrow>
          if \<not> go then Some (Ret True ws1)
          else if \<not> concurrent_substeps step \<or> length (substep step) \<le> 1
          then (case worker fuel (substep step) False externalShouldContinue ws1 of
                  None \<Rightarrow> None
                | Some (Ret got_failure ws2) \<Rightarrow>
                    if got_failure then Some (Ret False ws2)
                    else substep_loop fuel step externalShouldContinue sc (iter + 1) ws2
                | Some (Fatal f ws2) \<Rightarrow> Some (Fatal f ws2)
                | Some (Threads t ws2) \<Rightarrow> Some (Threads t ws2))
          else Some (Threads (SubstepWorkers (length (substep step))) ws1)
      | Fatal f ws1 \<Rightarrow> Some (Fatal f ws1)
      | Threads t ws1 \<Rightarrow> Some (Threads t ws1))"
| "worker fuel [] got_failure externalShouldContinue ws = Some (Ret got_failure ws)"
| "worker fuel (s # rest) got_failure externalShouldContinue ws =
     (if got_failure then Some (Ret got_failure ws)
      else case ExecuteStepRecursive fuel s
                  (\<lambda>iter. \<not> got_failure \<and> externalShouldContinue iter) ws of
             None \<Rightarrow> None
           | Some (Ret ok ws') \<Rightarrow>
               worker fuel rest (if \<not> ok then True else got_failure) externalShouldContinue ws'
           | Some (Fatal f ws') \<Rightarrow> Some (Fatal f ws')
           | Some (Threads t ws') \<Rightarrow> Some (Threads t ws'))"


text \<open>A plan: the network definitions and the top-level steps.\<close>

record PlanDef =
  plan_network :: "NetDef list"
  execution_step :: "ExecutionStep list"

text \<open>Lines 173 to 178 of \<^verbatim>\<open>Workspace::RunPlan\<close>.\<close>

fun create_nets :: "builder \<Rightarrow> NetDef list \<Rightarrow> Workspace \<Rightarrow> bool outcome" where
  "create_nets build [] ws = Ret True ws"
| "create_nets build (d # ds) ws =
     (case CreateNet build ws d of
        Ret p ws' \<Rightarrow> if p = None then Ret False ws' else create_nets build ds ws'
      | Fatal f ws' \<Rightarrow> Fatal f ws'
      | Threads t ws' \<Rightarrow> Threads t ws')"

text \<open>Lines 180 to 188.\<close>

fun run_steps ::
  "nat \<Rightarrow> ExecutionStep list \<Rightarrow> (int \<Rightarrow> bool) \<Rightarrow> Workspace \<Rightarrow> bool outcome option" where
  "run_steps fuel [] sc ws = Some (Ret True ws)"
| "run_steps fuel (s # ss) sc ws =
     (case ExecuteStepRecursive fuel s sc ws of
        None \<Rightarrow> None
      | Some (Ret ok ws') \<Rightarrow> if \<not> ok then Some (Ret False ws') else run_steps fuel ss sc ws'
      | Some (Fatal f ws') \<Rightarrow> Some (Fatal f ws')
      | Some (Threads t ws') \<Rightarrow> Some (Threads t ws'))"

definition RunPlan ::
  "nat \<Rightarrow> builder \<Rightarrow> Workspace \<Rightarrow> PlanDef \<Rightarrow> (int \<Rightarrow> bool) \<Rightarrow> bool outcome option" where
  "RunPlan fuel build ws plan sc =
     (if execution_step plan = [] then Some (Ret True ws)
      else case create_nets build (plan_network plan) ws of
             Ret ok ws' \<Rightarrow>
               if \<not> ok then Some (Ret False ws')
               else run_steps fuel (execution_step plan) sc ws'
           | Fatal f ws' \<Rightarrow> Some (Fatal f ws')
           | Threads t ws' \<Rightarrow> Some (Threads t ws'))"

subsection \<open>Small plans to run\<close>

definition no_blobs :: blobstore where
  "no_blobs = BlobStore (\<lambda>n. None) None"

definition ok_net :: "string \<Rightarrow> net" where
  "ok_net nm = \<lparr>nname = nm, external_output = [], Verify = True, Run = (\<lambda>b. (True, b))\<rparr>"

definition failing_net :: "string \<Rightarrow> net" where
  "failing_net nm = \<lparr>nname = nm, external_output = [], Verify = True, Run = (\<lambda>b. (False, b))\<rparr>"

definition empty_ws :: Workspace where
  "empty_ws = \<lparr>blobs = no_blobs, net_map = (\<lambda>n. None), history = []\<rparr>"

text \<open>A workspace with the networks \<open>a\<close> and \<open>b\<close>, which succeed, and \<open>bad\<close>, which fails.\<close>

definition abc_ws :: Workspace where
  "abc_ws = \<lparr>blobs = no_blobs,
             net_map = (\<lambda>n. None)(''a'' \<mapsto> Some (ok_net ''a''), ''b'' \<mapsto> Some (ok_net ''b''),
                                     ''bad'' \<mapsto> Some (failing_net ''bad'')),
             history = []\<rparr>"

definition leaf :: "string \<Rightarrow> string list \<Rightarrow> int option \<Rightarrow> ExecutionStep" where
  "leaf nm nets n = ExecutionStep nm [] nets n None None None False"

definition crit_step :: "string list \<Rightarrow> string \<Rightarrow> ExecutionStep" where
  "crit_step nets c = ExecutionStep ''s'' [] nets None (Some c) None None False"

text \<open>
  A criteria network that shifts \<open>t2\<close> into \<open>t1\<close> into its output \<open>go\<close>: from
  \<open>t1 = t2 = true\<close> its output reads true, true, false.
\<close>

definition countdown :: net where
  "countdown = \<lparr>nname = ''c'', external_output = [''go''], Verify = True,
     Run = (\<lambda>s. (True, BlobStore ((blob_map s)(''go'' := blob_map s ''t1'', ''t1'' := blob_map s ''t2'',
                                ''t2'' \<mapsto> TensorCPU (BoolTensor [False]))) (shared s)))\<rparr>"

definition crit_ws :: Workspace where
  "crit_ws = \<lparr>blobs = BlobStore ((\<lambda>n. None)(''t1'' \<mapsto> TensorCPU (BoolTensor [True]),
                                           ''t2'' \<mapsto> TensorCPU (BoolTensor [True]))) None,
              net_map = (\<lambda>n. None)(''a'' \<mapsto> Some (ok_net ''a''), ''c'' \<mapsto> Some countdown),
              history = []\<rparr>"



text \<open>A builder that never produces an instance.\<close>

definition null_builder :: builder where
  "null_builder d b = (None, b)"

definition always :: "int \<Rightarrow> bool" where
  "always i = True"

definition never :: "int \<Rightarrow> bool" where
  "never i = False"

section \<open>Properties\<close>

subsection \<open>Single runs and one pass over the networks\<close>




lemma collect_networks_history [simp]:
  "collect_networks (ws\<lparr>history := h\<rparr>) names = collect_networks ws names"
  by (induction names) (auto split: option.splits)

lemma collect_networks_None:
  "collect_networks ws names = None \<longleftrightarrow> (\<exists>n\<in>set names. net_map ws n = None)"
  by (induction names) (auto split: option.splits)

lemma GetNet_history [simp]:
  "GetNet (ws\<lparr>history := h\<rparr>) n = GetNet ws n"
  by (simp add: GetNet_def)

lemma getContinuationTest_history [simp]:
  "getContinuationTest (ws\<lparr>history := h\<rparr>) step = getContinuationTest ws step"
  by (simp add: getContinuationTest_def split: option.splits)

lemma no_failed_in_successes [simp]:
  "e \<in> set (map (\<lambda>n. NetRun (nname n) True) xs) \<Longrightarrow> \<not> failed_run e"
  by auto

subsection \<open>The loop of a leaf step under a fixed count\<close>





text \<open>Beyond the range of \<^verbatim>\<open>int\<close> the count the loop uses is not the declared one.\<close>

lemma iterations_narrowed:
  "iterations (leaf ''s'' [''a''] (Some 4294967297)) = 1"
  by (simp add: iterations_def narrow_int_def leaf_def)




subsection \<open>The loop of a leaf step under a criteria network\<close>

lemma criteria_outputs_append [simp]:
  "criteria_outputs (xs @ ys) = criteria_outputs xs @ criteria_outputs ys"
  by (induction xs rule: criteria_outputs.induct) simp_all

lemma criteria_outputs_runs [simp]:
  "criteria_outputs (map (\<lambda>n. NetRun (nname n) True) nets) = []"
  by (induction nets) simp_all











subsection \<open>More fuel changes no result\<close>






subsection \<open>The loop of a composite step under a criteria network\<close>














subsection \<open>Sequential substeps\<close>

lemma worker_got_failure [simp]:
  "worker fuel subs True ext ws = Some (Ret True ws)"
  by (cases subs) simp_all




subsection \<open>Rejected and malformed steps\<close>

text \<open>
  C3. A step whose substeps and networks are both non-empty is rejected at once: the call
  returns \<^verbatim>\<open>false\<close>, the only thing that happened is the entry of the step itself, and
  the blobs and the registry are as before. No network ran, no substep was entered, no
  reporter thread was started, and the process did not stop.
\<close>

theorem both_substeps_and_networks_rejected:
  assumes "substep step \<noteq> []" and "network step \<noteq> []"
  shows "ExecuteStepRecursive (Suc fuel) step ext ws =
           Some (Ret False (ws\<lparr>history := history ws @ [StepStart (step_name step)]\<rparr>))"
  using assms by simp

theorem both_substeps_and_networks_rejected_witness:
  "substep (ExecutionStep ''s'' [leaf ''t'' [''a''] None] [''a''] None None (Some ''a'') (Some 1) False) \<noteq> []
   \<and> network (ExecutionStep ''s'' [leaf ''t'' [''a''] None] [''a''] None None (Some ''a'') (Some 1) False) \<noteq> []
   \<and> ExecuteStepRecursive (Suc 0)
        (ExecutionStep ''s'' [leaf ''t'' [''a''] None] [''a''] None None (Some ''a'') (Some 1) False)
        always abc_ws
       = Some (Ret False (abc_ws\<lparr>history := history abc_ws @ [StepStart ''s'']\<rparr>))"
  using both_substeps_and_networks_rejected
          [of "ExecutionStep ''s'' [leaf ''t'' [''a''] None] [''a''] None None (Some ''a'') (Some 1) False"
              0 always abc_ws]
  by simp

text \<open>
  C5, as amended. A leaf step without report net in which a referenced name has no entry
  in the registry runs no network: all that happens is the entry of the step. The
  continuation test is built before the names are resolved, so the call returns
  \<^verbatim>\<open>false\<close> when that construction passes its checks, and the process stops on the
  failed check otherwise.
\<close>

theorem missing_network_no_runs:
  assumes "substep step = []" and "report_net step = None"
    and "\<exists>n\<in>set (network step). net_map ws n = None"
  shows "ExecuteStepRecursive (Suc fuel) step ext ws =
           Some (case getContinuationTest ws step of
                   Inl f \<Rightarrow> Fatal f (ws\<lparr>history := history ws @ [StepStart (step_name step)]\<rparr>)
                 | Inr t \<Rightarrow> Ret False (ws\<lparr>history := history ws @ [StepStart (step_name step)]\<rparr>))"
proof -
  have "collect_networks ws (network step) = None"
    using assms(3) by (simp add: collect_networks_None)
  then show ?thesis using assms(1,2) by (simp split: sum.splits)
qed

theorem missing_network_no_runs_witness:
  "ExecuteStepRecursive (Suc 0) (leaf ''s'' [''a'', ''zz''] (Some 3)) always abc_ws =
     Some (Ret False (abc_ws\<lparr>history := history abc_ws @ [StepStart ''s'']\<rparr>))"
proof -
  have h1: "substep (leaf ''s'' [''a'', ''zz''] (Some 3)) = []" by (simp add: leaf_def)
  have h2: "report_net (leaf ''s'' [''a'', ''zz''] (Some 3)) = None" by (simp add: leaf_def)
  have h3: "\<exists>n\<in>set (network (leaf ''s'' [''a'', ''zz''] (Some 3))). net_map abc_ws n = None"
    by (simp add: leaf_def abc_ws_def)
  have t: "getContinuationTest abc_ws (leaf ''s'' [''a'', ''zz''] (Some 3))
           = Inr (\<lambda>i ws. Ret (i < 3) ws)"
    by (simp add: getContinuationTest_def leaf_def iterations_def narrow_int_def)
  have n: "step_name (leaf ''s'' [''a'', ''zz''] (Some 3)) = ''s''" by (simp add: leaf_def)
  show ?thesis
    using missing_network_no_runs [OF h1 h2 h3, of 0 always]
    unfolding t n by simp
qed

text \<open>
  C5 as stated fails when the construction of the continuation test stops the process
  first: the leaf network \<open>zz\<close> is missing, the criteria network \<open>a\<close> is registered
  but declares no external output, and the call does not return.
\<close>

theorem missing_network_counterexample:
  "net_map abc_ws ''zz'' = None \<and>
   ExecuteStepRecursive (Suc 0) (crit_step [''zz''] ''a'') always abc_ws =
     Some (Fatal Check_external_output_size (abc_ws\<lparr>history := [StepStart ''s'']\<rparr>))"
  by (simp add: crit_step_def abc_ws_def getContinuationTest_def GetNet_def ok_net_def)

text \<open>
  C6, as amended. A step without report net that declares both \<^verbatim>\<open>num_iter\<close> and
  \<^verbatim>\<open>criteria_network\<close> returns \<^verbatim>\<open>false\<close> only when it is rejected earlier for
  having both substeps and networks. Otherwise the check of line 21 stops the process,
  right after the entry of the step and before any network runs.
\<close>

theorem num_iter_with_criteria_stops:
  assumes "num_iter step \<noteq> None" and "criteria_network step \<noteq> None"
    and "report_net step = None"
  shows "ExecuteStepRecursive (Suc fuel) step ext ws =
           Some (if substep step \<noteq> [] \<and> network step \<noteq> []
                 then Ret False (ws\<lparr>history := history ws @ [StepStart (step_name step)]\<rparr>)
                 else Fatal Check_num_iter_with_criteria
                        (ws\<lparr>history := history ws @ [StepStart (step_name step)]\<rparr>))"
  using assms by (auto simp: getContinuationTest_def)

theorem num_iter_with_criteria_stops_witness:
  "ExecuteStepRecursive (Suc 0)
     (ExecutionStep ''s'' [] [] (Some 5) (Some ''a'') None None False) never abc_ws
   = Some (Fatal Check_num_iter_with_criteria
            (abc_ws\<lparr>history := history abc_ws @ [StepStart ''s'']\<rparr>))"
  using num_iter_with_criteria_stops
          [of "ExecutionStep ''s'' [] [] (Some 5) (Some ''a'') None None False" 0 never abc_ws]
  by simp

text \<open>C6 as stated fails: the call does not return \<^verbatim>\<open>false\<close>, the process stops.\<close>

theorem num_iter_with_criteria_counterexample:
  "ExecuteStepRecursive (Suc 0)
     (ExecutionStep ''s'' [] [''a''] (Some 1) (Some ''b'') None None False) always abc_ws
   = Some (Fatal Check_num_iter_with_criteria (abc_ws\<lparr>history := [StepStart ''s'']\<rparr>))"
  by (simp add: abc_ws_def getContinuationTest_def)

subsection \<open>The combined continuation test\<close>

text \<open>
  C10. For a step driven by a criteria network, the combined test at an index where the
  external predicate does not hold returns \<^verbatim>\<open>false\<close> and leaves the workspace as it
  was: the criteria network has not run and no blob has changed. The loops of a leaf step
  and of a composite step then end with success in that same workspace.
\<close>

theorem external_stop_skips_criteria:
  assumes "criteria_network step = Some cn"
    and "getContinuationTest ws0 step = Inr netShouldContinue"
    and "\<not> ext i"
  shows "shouldContinue ext netShouldContinue i ws = Ret False ws
       \<and> network_loop (Suc fuel) networks (shouldContinue ext netShouldContinue) i ws
           = Some (Ret True ws)
       \<and> substep_loop (Suc fuel) step ext (shouldContinue ext netShouldContinue) i ws
           = Some (Ret True ws)"
  using assms(3) by (simp add: shouldContinue_def)

theorem external_stop_skips_criteria_witness:
  "shouldContinue never (criteria_test countdown ''go'') 0 crit_ws = Ret False crit_ws
   \<and> network_loop (Suc 0) [Some (ok_net ''a'')] (shouldContinue never (criteria_test countdown ''go'')) 0 crit_ws
       = Some (Ret True crit_ws)
   \<and> substep_loop (Suc 0) (crit_step [''a''] ''c'') never
        (shouldContinue never (criteria_test countdown ''go'')) 0 crit_ws
       = Some (Ret True crit_ws)"
proof -
  have h1: "criteria_network (crit_step [''a''] ''c'') = Some ''c''" by (simp add: crit_step_def)
  have h2: "getContinuationTest crit_ws (crit_step [''a''] ''c'') = Inr (criteria_test countdown ''go'')"
    by (simp add: getContinuationTest_def crit_step_def crit_ws_def GetNet_def countdown_def)
  have h3: "\<not> never 0" by (simp add: never_def)
  show ?thesis by (rule external_stop_skips_criteria [where ext = never and i = 0, OF h1 h2 h3])
qed

subsection \<open>Null instances\<close>

text \<open>
  \<^verbatim>\<open>CreateNet\<close> keeps the registry free of null and unverified instances, and changes
  no entry but the one of the definition's name.
\<close>

lemma CreateNet_keeps_registry:
  assumes inv: "\<forall>n. net_map ws n \<noteq> Some None \<and> (\<forall>x. net_map ws n = Some (Some x) \<longrightarrow> Verify x)"
    and run: "CreateNet build ws d = Ret r ws'"
  shows "(\<forall>n. net_map ws' n \<noteq> Some None \<and> (\<forall>x. net_map ws' n = Some (Some x) \<longrightarrow> Verify x))
       \<and> (\<exists>nm. def_name d = Some nm \<and>
             net_map ws' nm = (case r of None \<Rightarrow> None | Some x \<Rightarrow> Some (Some x)) \<and>
             (\<forall>n. n \<noteq> nm \<longrightarrow> net_map ws' n = net_map ws n))"
proof (cases "def_name d")
  case None
  with run show ?thesis by (simp add: CreateNet_def)
next
  case (Some nm)
  obtain p b where pb: "build d (blobs ws) = (p, b)" by (cases "build d (blobs ws)")
  have pb': "build d (blobs (ws\<lparr>net_map := (net_map ws)(nm := None)\<rparr>)) = (p, b)"
    using pb by simp
  show ?thesis
  proof (cases p)
    case None
    with run Some pb pb' inv show ?thesis
      by (auto simp: CreateNet_def Let_def split: if_splits)
  next
    case p: (Some x)
    show ?thesis
    proof (cases "Verify x")
      case True
      with run Some pb pb' inv p show ?thesis
        by (auto simp: CreateNet_def Let_def split: if_splits)
    next
      case False
      with run Some pb pb' inv p show ?thesis
        by (auto simp: CreateNet_def Let_def split: if_splits)
    qed
  qed
qed

text \<open>\<^verbatim>\<open>RunNetOnce\<close> leaves the registry as it was, whatever the outcome.\<close>

lemma RunNetOnce_registry:
  "net_map (ws_of (RunNetOnce build ws d)) = net_map ws"
  by (auto simp: RunNetOnce_def Run_net_def Let_def split: prod.splits option.splits)


text \<open>
  C7, at the failing input. When the builder returns the null pointer,
  \<^verbatim>\<open>RunNetOnce\<close> dereferences it, where \<^verbatim>\<open>CreateNet\<close> on the same input reports
  the failure by returning null.
\<close>

theorem RunNetOnce_null_instance:
  "RunNetOnce null_builder empty_ws \<lparr>def_name = Some ''n'', def_rest = 0\<rparr> = Fatal NullDeref empty_ws
   \<and> CreateNet null_builder empty_ws \<lparr>def_name = Some ''n'', def_rest = 0\<rparr> = Ret None empty_ws"
  by (simp add: RunNetOnce_def CreateNet_def null_builder_def empty_ws_def)

text \<open>
  C8, at the failing input. A plan whose step names a report net that is not registered
  leaves a null entry under that name in the registry (line 250 indexes the map with
  \<^verbatim>\<open>operator[]\<close>); \<^verbatim>\<open>RunNet\<close> on that name then dereferences null.
\<close>

theorem report_net_null_entry:
  "RunPlan (Suc 0) null_builder empty_ws
     \<lparr>plan_network = [],
      execution_step = [ExecutionStep ''s'' [] [] None None (Some ''r'') (Some 1) False]\<rparr> always
   = Some (Threads (ReporterThread None 1)
       (empty_ws\<lparr>net_map := (net_map empty_ws)(''r'' \<mapsto> None), history := [StepStart ''s'']\<rparr>))
   \<and> net_map empty_ws ''r'' = None
   \<and> RunNet (empty_ws\<lparr>net_map := (net_map empty_ws)(''r'' \<mapsto> None), history := [StepStart ''s'']\<rparr>) ''r''
     = Fatal NullDeref
         (empty_ws\<lparr>net_map := (net_map empty_ws)(''r'' \<mapsto> None), history := [StepStart ''s'']\<rparr>)"
  by (simp add: RunPlan_def net_map_at_def empty_ws_def RunNet_def Run_ptr_def)

text \<open>
  C9, at the failing input. With a report net that is not registered the reporter thread
  is started all the same, holding the null pointer; the same step without report net
  runs its network and returns \<^verbatim>\<open>true\<close>.
\<close>

theorem missing_report_net_starts_reporter:
  "ExecuteStepRecursive 3
     (ExecutionStep ''s'' [] [''a''] None None (Some ''r'') (Some 1) False) always abc_ws
   = Some (Threads (ReporterThread None 1)
       (abc_ws\<lparr>net_map := (net_map abc_ws)(''r'' \<mapsto> None), history := [StepStart ''s'']\<rparr>))
   \<and> ExecuteStepRecursive 3
     (ExecutionStep ''s'' [] [''a''] None None None None False) always abc_ws
   = Some (Ret True (abc_ws\<lparr>history := [StepStart ''s'', NetRun ''a'' True]\<rparr>))"
  by (simp add: numeral_3_eq_3 net_map_at_def abc_ws_def getContinuationTest_def
        shouldContinue_def always_def iterations_def narrow_int_def Run_ptr_def Run_net_def ok_net_def)

end
